theory Spec2Isabelle
  imports Complex_Main "HOL-Library.Word"
begin

section \<open>The application store (store/appStore)\<close>

text \<open>
  The store is a Zustand object; every action is a pure update of the state record.
  The types \<open>WorldState\<close>, \<open>MissionState\<close>, \<open>ParsedAction\<close> and the \<open>details\<close> of a
  reasoning step are declared in \<open>types/world\<close>; the store only moves their values
  around, so they are type parameters here (\<open>'m\<close> mission, \<open>'a\<close> parsed action,
  \<open>'d\<close> details). Of a world state the store reads one field, \<open>current_mission\<close>;
  the other fields are the record's extension \<open>'z\<close>.

  \<open>generateId()\<close> draws from \<open>Math.random\<close> and \<open>new Date()\<close> reads the clock: the
  pair of both results is an argument (a \<open>stamp\<close>) of the two actions that use them.
\<close>

record 'm world_state =
  current_mission :: "'m option"

record transcript_entry =
  entry_id :: string
  entry_type :: string
  entry_text :: string
  entry_timestamp :: int

record 'd reasoning_step =
  rs_id :: string
  rs_agent :: string
  rs_step :: string
  rs_details :: 'd
  rs_timestamp :: int

type_synonym stamp = "string \<times> int"

record ('m, 'z, 'a, 'd) app_state =
  sessionId :: "string option"
  isConnected :: bool
  worldState :: "('m, 'z) world_state_scheme option"
  mission :: "'m option"
  transcripts :: "transcript_entry list"
  reasoningChain :: "'d reasoning_step list"
  lastAction :: "'a option"
  lastFeedback :: "string list"
  npcDialogue :: "string option"
  isRecording :: bool

definition initial_state :: "('m, 'z, 'a, 'd) app_state" where
  "initial_state =
     \<lparr>sessionId = None, isConnected = False, worldState = None, mission = None,
      transcripts = [], reasoningChain = [], lastAction = None, lastFeedback = [],
      npcDialogue = None, isRecording = False\<rparr>"

text \<open>\<open>xs.slice(-n)\<close> for \<open>n > 0\<close>: the last \<open>n\<close> elements, all of them when there are fewer.\<close>

definition slice_last :: "nat \<Rightarrow> 'x list \<Rightarrow> 'x list" where
  "slice_last n xs = drop (length xs - n) xs"

definition setSessionId ::
  "string option \<Rightarrow> ('m, 'z, 'a, 'd) app_state \<Rightarrow> ('m, 'z, 'a, 'd) app_state" where
  "setSessionId sid s = s\<lparr>sessionId := sid\<rparr>"

definition setConnected ::
  "bool \<Rightarrow> ('m, 'z, 'a, 'd) app_state \<Rightarrow> ('m, 'z, 'a, 'd) app_state" where
  "setConnected conn s = s\<lparr>isConnected := conn\<rparr>"

text \<open>\<open>state.current_mission || null\<close>: a mission object is truthy, an absent one gives null.\<close>

definition setWorldState ::
  "('m, 'z) world_state_scheme \<Rightarrow> ('m, 'z, 'a, 'd) app_state \<Rightarrow> ('m, 'z, 'a, 'd) app_state" where
  "setWorldState st s = s\<lparr>worldState := Some st, mission := current_mission st\<rparr>"

definition addTranscript ::
  "stamp \<Rightarrow> string \<times> string \<Rightarrow> ('m, 'z, 'a, 'd) app_state \<Rightarrow> ('m, 'z, 'a, 'd) app_state" where
  "addTranscript now entry s =
     s\<lparr>transcripts := slice_last 50 (transcripts s) @
        [\<lparr>entry_id = fst now, entry_type = fst entry, entry_text = snd entry,
          entry_timestamp = snd now\<rparr>]\<rparr>"

definition addReasoningStep ::
  "stamp \<Rightarrow> string \<times> string \<times> 'd \<Rightarrow> ('m, 'z, 'a, 'd) app_state \<Rightarrow> ('m, 'z, 'a, 'd) app_state" where
  "addReasoningStep now stp s =
     s\<lparr>reasoningChain := slice_last 20 (reasoningChain s) @
        [\<lparr>rs_id = fst now, rs_agent = fst stp, rs_step = fst (snd stp),
          rs_details = snd (snd stp), rs_timestamp = snd now\<rparr>]\<rparr>"

definition clearReasoningChain ::
  "('m, 'z, 'a, 'd) app_state \<Rightarrow> ('m, 'z, 'a, 'd) app_state" where
  "clearReasoningChain s = s\<lparr>reasoningChain := []\<rparr>"

definition setLastAction ::
  "'a \<Rightarrow> string list \<Rightarrow> ('m, 'z, 'a, 'd) app_state \<Rightarrow> ('m, 'z, 'a, 'd) app_state" where
  "setLastAction action fb s = s\<lparr>lastAction := Some action, lastFeedback := fb\<rparr>"

definition setNpcDialogue ::
  "string option \<Rightarrow> ('m, 'z, 'a, 'd) app_state \<Rightarrow> ('m, 'z, 'a, 'd) app_state" where
  "setNpcDialogue dialogue s = s\<lparr>npcDialogue := dialogue\<rparr>"

definition setMission ::
  "'m \<Rightarrow> ('m, 'z, 'a, 'd) app_state \<Rightarrow> ('m, 'z, 'a, 'd) app_state" where
  "setMission mi s = s\<lparr>mission := Some mi\<rparr>"

definition setRecording ::
  "bool \<Rightarrow> ('m, 'z, 'a, 'd) app_state \<Rightarrow> ('m, 'z, 'a, 'd) app_state" where
  "setRecording recording s = s\<lparr>isRecording := recording\<rparr>"

definition reset :: "('m, 'z, 'a, 'd) app_state \<Rightarrow> ('m, 'z, 'a, 'd) app_state" where
  "reset s = initial_state"

text \<open>
  A run of the two bounded-log actions, in the order of the calls. Each call comes with
  the stamp it drew.
\<close>

datatype 'd log_call =
  AddTranscript stamp "string \<times> string"
| AddReasoningStep stamp "string \<times> string \<times> 'd"

fun log_step ::
  "('m, 'z, 'a, 'd) app_state \<Rightarrow> 'd log_call \<Rightarrow> ('m, 'z, 'a, 'd) app_state" where
  "log_step s (AddTranscript now entry) = addTranscript now entry s"
| "log_step s (AddReasoningStep now stp) = addReasoningStep now stp s"

definition run_log ::
  "('m, 'z, 'a, 'd) app_state \<Rightarrow> 'd log_call list \<Rightarrow> ('m, 'z, 'a, 'd) app_state" where
  "run_log s calls = foldl log_step s calls"

section \<open>The WebSocket hook (hooks/useWebSocket)\<close>

text \<open>
  One instance of the hook owns two refs (\<open>wsRef\<close>, \<open>reconnectTimeoutRef\<close>) and one React
  state cell (\<open>isReconnecting\<close>), and shares the store. The state of the instance is a
  record of these, together with what its calls do to the outside: the console lines,
  the pending \<open>setTimeout\<close> timers, the audio handed to playback and the number of
  stamps drawn so far.

  In a function component \<open>const [isReconnecting, setIsReconnecting] = useState(false)\<close>
  binds \<open>isReconnecting\<close> to the value of the cell at that render: \<open>setIsReconnecting\<close>
  changes the cell, never the binding. \<open>connect\<close> is built by \<open>useCallback\<close> in a render
  and closes over that render's \<open>sessionId\<close> and \<open>isReconnecting\<close>; the handlers it
  installs on a socket, and the timer callback that calls \<open>connect()\<close> again, live in the
  same closure. A \<open>connect_closure\<close> holds the two captured values, and a socket remembers
  the \<open>isReconnecting\<close> its handlers captured.
\<close>

datatype ready_state = CONNECTING | OPEN | CLOSING | CLOSED

datatype js_error = TypeError | SyntaxError | InvalidStateError

datatype console_entry = ConsoleLog string | ConsoleError string

text \<open>The two JSON objects the hook sends: \<open>{type: 'transcript', text, is_final}\<close> and \<open>{type: 'ping'}\<close>.\<close>

datatype client_message = TranscriptOut string bool | PingOut

record websocket =
  url :: string
  readyState :: ready_state
  sent :: "client_message list"
  closure_isReconnecting :: bool

record connect_closure =
  cl_sessionId :: "string option"
  cl_isReconnecting :: bool

record world_diff =
  npc_dialogue :: "string option"
  world_event :: "string option"

text \<open>
  A server message is an object discriminated by the string in its \<open>type\<close> field
  (\<open>mtype\<close>; the field \<open>text\<close> is \<open>msg_text\<close>). Each branch of the handler reads the fields
  of its own variant and no other, so one flat record carries the fields of all variants.
  \<open>world_diff\<close> is read with \<open>?.\<close> and may be absent.
\<close>

record ('m, 'z, 'a, 'd) server_message =
  mtype :: string
  state :: "('m, 'z) world_state_scheme"
  msg_text :: string
  parsed_action :: 'a
  feedback :: "string list"
  world_diff :: "world_diff option"
  agent :: string
  step :: string
  details :: 'd
  audio_data :: string
  mood :: string
  message :: string

record ('m, 'z, 'a, 'd) ws_hook =
  store :: "('m, 'z, 'a, 'd) app_state"
  wsRef :: "websocket option"
  reconnectTimeoutRef :: "nat option"
  isReconnecting :: bool
  timers :: "nat list"
  timer_seq :: nat
  console :: "console_entry list"
  played :: "string list"
  draws :: nat

definition initial_hook :: "('m, 'z, 'a, 'd) ws_hook" where
  "initial_hook =
     \<lparr>store = initial_state, wsRef = None, reconnectTimeoutRef = None,
      isReconnecting = False, timers = [], timer_seq = 1, console = [], played = [],
      draws = 0\<rparr>"

text \<open>The closure a render in state \<open>c\<close> builds.\<close>

definition render :: "('m, 'z, 'a, 'd) ws_hook \<Rightarrow> connect_closure" where
  "render c = \<lparr>cl_sessionId = sessionId (store c), cl_isReconnecting = isReconnecting c\<rparr>"

definition console_log ::
  "string \<Rightarrow> ('m, 'z, 'a, 'd) ws_hook \<Rightarrow> ('m, 'z, 'a, 'd) ws_hook" where
  "console_log line c = c\<lparr>console := console c @ [ConsoleLog line]\<rparr>"

definition console_error ::
  "string \<Rightarrow> ('m, 'z, 'a, 'd) ws_hook \<Rightarrow> ('m, 'z, 'a, 'd) ws_hook" where
  "console_error line c = c\<lparr>console := console c @ [ConsoleError line]\<rparr>"

text \<open>A store action called from the hook.\<close>

definition dispatch ::
  "(('m, 'z, 'a, 'd) app_state \<Rightarrow> ('m, 'z, 'a, 'd) app_state) \<Rightarrow>
   ('m, 'z, 'a, 'd) ws_hook \<Rightarrow> ('m, 'z, 'a, 'd) ws_hook" where
  "dispatch act c = c\<lparr>store := act (store c)\<rparr>"

text \<open>\<open>addTranscript\<close> and \<open>addReasoningStep\<close> from the hook: the call takes the next stamp of \<open>env\<close>.\<close>

definition hook_addTranscript ::
  "(nat \<Rightarrow> stamp) \<Rightarrow> string \<times> string \<Rightarrow> ('m, 'z, 'a, 'd) ws_hook \<Rightarrow> ('m, 'z, 'a, 'd) ws_hook" where
  "hook_addTranscript env entry c =
     c\<lparr>store := addTranscript (env (draws c)) entry (store c), draws := Suc (draws c)\<rparr>"

definition hook_addReasoningStep ::
  "(nat \<Rightarrow> stamp) \<Rightarrow> string \<times> string \<times> 'd \<Rightarrow> ('m, 'z, 'a, 'd) ws_hook \<Rightarrow>
   ('m, 'z, 'a, 'd) ws_hook" where
  "hook_addReasoningStep env stp c =
     c\<lparr>store := addReasoningStep (env (draws c)) stp (store c), draws := Suc (draws c)\<rparr>"

subsection \<open>createSession and connect\<close>

text \<open>
  What the session request can do: \<open>fetch\<close> rejects; \<open>response.json()\<close> rejects or the
  parsed body has no properties to read (\<open>null\<close>); or a body is parsed and its
  \<open>session_id\<close> is read, \<open>undefined\<close> (\<open>None\<close>) when the body has no such field.
\<close>

datatype fetch_outcome = FetchRejected | JsonRejected | Parsed "string option"

text \<open>The body of the \<open>try\<close>.\<close>

definition session_request :: "fetch_outcome \<Rightarrow> js_error + string option" where
  "session_request outcome =
     (case outcome of
        FetchRejected \<Rightarrow> Inl TypeError
      | JsonRejected \<Rightarrow> Inl SyntaxError
      | Parsed sid \<Rightarrow> Inr sid)"

text \<open>\<open>str.substring(i, j)\<close> for \<open>i \<le> j\<close>.\<close>

definition substring :: "nat \<Rightarrow> nat \<Rightarrow> string \<Rightarrow> string" where
  "substring i j str = take (j - i) (drop i str)"

text \<open>
  \<open>createSession\<close>: \<open>rnd\<close> is \<open>Math.random().toString(36)\<close>. The result is the identifier
  and the console lines written.
\<close>

definition createSession :: "fetch_outcome \<Rightarrow> string \<Rightarrow> string option \<times> console_entry list" where
  "createSession outcome rnd =
     (case session_request outcome of
        Inr sid \<Rightarrow> (sid, [])
      | Inl e \<Rightarrow> (Some (''local-'' @ substring 2 9 rnd),
                  [ConsoleError ''Failed to create session:'']))"

text \<open>\<open>!sid\<close> for \<open>sid : string | null\<close>.\<close>

definition falsy :: "string option \<Rightarrow> bool" where
  "falsy sid = (sid = None \<or> sid = Some [])"

text \<open>\<open>`${sid}`\<close>.\<close>

definition template :: "string option \<Rightarrow> string" where
  "template sid = (case sid of None \<Rightarrow> ''undefined'' | Some str \<Rightarrow> str)"

text \<open>
  \<open>connect\<close>, as one step (the \<open>await\<close> is the only suspension point). \<open>ws_url\<close> is the
  constant \<open>WS_URL\<close>; \<open>outcome\<close> and \<open>rnd\<close> are consulted only when \<open>createSession\<close> runs.
\<close>

definition connect ::
  "string \<Rightarrow> connect_closure \<Rightarrow> fetch_outcome \<Rightarrow> string \<Rightarrow> ('m, 'z, 'a, 'd) ws_hook \<Rightarrow>
   js_error + ('m, 'z, 'a, 'd) ws_hook" where
  "connect ws_url cl outcome rnd c =
     (if map_option readyState (wsRef c) = Some OPEN then Inr c
      else
        let (sid, c1) =
              (if falsy (cl_sessionId cl)
               then (let (sid', lines) = createSession outcome rnd
                     in (sid', dispatch (setSessionId sid') (c\<lparr>console := console c @ lines\<rparr>)))
               else (cl_sessionId cl, c));
            target = ws_url @ ''/'' @ template sid;
            c2 = console_log (''[WS] Connecting to '' @ target) c1
        in Inr (c2\<lparr>wsRef := Some \<lparr>url = target, readyState = CONNECTING, sent = [],
                                   closure_isReconnecting = cl_isReconnecting cl\<rparr>\<rparr>))"

subsection \<open>The socket's handlers\<close>

definition ws_onopen :: "('m, 'z, 'a, 'd) ws_hook \<Rightarrow> ('m, 'z, 'a, 'd) ws_hook" where
  "ws_onopen c =
     (dispatch (setConnected True) (console_log ''[WS] Connected'' c))\<lparr>isReconnecting := False\<rparr>"

text \<open>
  \<open>ws.onclose\<close> of the socket \<open>ws\<close>. The guard reads the \<open>isReconnecting\<close> of the closure
  that installed the handler; \<open>window.setTimeout\<close> returns a fresh timer identifier.
\<close>

definition ws_onclose ::
  "websocket \<Rightarrow> ('m, 'z, 'a, 'd) ws_hook \<Rightarrow> ('m, 'z, 'a, 'd) ws_hook" where
  "ws_onclose ws c =
     (let c1 = dispatch (setConnected False) (console_log ''[WS] Disconnected'' c)
      in if \<not> closure_isReconnecting ws
         then c1\<lparr>isReconnecting := True,
                 reconnectTimeoutRef := Some (timer_seq c1),
                 timers := timers c1 @ [timer_seq c1],
                 timer_seq := Suc (timer_seq c1)\<rparr>
         else c1)"

text \<open>The timer \<open>t\<close> fires: its callback calls the \<open>connect\<close> of the closure that set it.\<close>

definition reconnect_timeout ::
  "string \<Rightarrow> connect_closure \<Rightarrow> fetch_outcome \<Rightarrow> string \<Rightarrow> nat \<Rightarrow> ('m, 'z, 'a, 'd) ws_hook \<Rightarrow>
   js_error + ('m, 'z, 'a, 'd) ws_hook" where
  "reconnect_timeout ws_url cl outcome rnd t c =
     connect ws_url cl outcome rnd
       (console_log ''[WS] Attempting reconnect...'' (c\<lparr>timers := removeAll t (timers c)\<rparr>))"

subsection \<open>handleMessage\<close>

text \<open>\<open>message.world_diff?.npc_dialogue\<close> and \<open>message.world_diff?.world_event\<close>.\<close>

definition diff_npc_dialogue :: "('m, 'z, 'a, 'd) server_message \<Rightarrow> string option" where
  "diff_npc_dialogue m = (case world_diff m of None \<Rightarrow> None | Some d \<Rightarrow> npc_dialogue d)"

definition diff_world_event :: "('m, 'z, 'a, 'd) server_message \<Rightarrow> string option" where
  "diff_world_event m = (case world_diff m of None \<Rightarrow> None | Some d \<Rightarrow> world_event d)"

text \<open>
  The branch \<open>case 'action_result'\<close>; an optional string passes \<open>if (str)\<close> when it is
  present and not empty.
\<close>

definition on_action_result ::
  "(nat \<Rightarrow> stamp) \<Rightarrow> ('m, 'z, 'a, 'd) server_message \<Rightarrow> ('m, 'z, 'a, 'd) ws_hook \<Rightarrow>
   ('m, 'z, 'a, 'd) ws_hook" where
  "on_action_result env m c =
     (let c1 = dispatch (setLastAction (parsed_action m) (feedback m)) c;
          c2 = (case diff_npc_dialogue m of
                  None \<Rightarrow> c1
                | Some dlg \<Rightarrow>
                    if dlg \<noteq> []
                    then hook_addTranscript env (''npc'', dlg)
                           (dispatch (setNpcDialogue (Some dlg)) c1)
                    else c1);
          c3 = (case diff_world_event m of
                  None \<Rightarrow> c2
                | Some ev \<Rightarrow>
                    if ev \<noteq> [] then hook_addTranscript env (''system'', ev) c2 else c2)
      in foldl (\<lambda>c' fb. hook_addTranscript env (''feedback'', fb) c') c3 (feedback m))"

text \<open>
  The branch \<open>case 'npc_audio'\<close>: decoding and playback touch neither the store nor the
  socket, and the branch catches its own errors; the payload handed to playback is
  recorded in \<open>played\<close>.
\<close>

definition on_npc_audio ::
  "('m, 'z, 'a, 'd) server_message \<Rightarrow> ('m, 'z, 'a, 'd) ws_hook \<Rightarrow> ('m, 'z, 'a, 'd) ws_hook" where
  "on_npc_audio m c =
     (if audio_data m \<noteq> [] then c\<lparr>played := played c @ [audio_data m]\<rparr> else c)"

text \<open>The \<open>switch\<close> on \<open>message.type\<close>; it has no \<open>default\<close> branch.\<close>

definition handleMessage ::
  "(nat \<Rightarrow> stamp) \<Rightarrow> ('m, 'z, 'a, 'd) server_message \<Rightarrow> ('m, 'z, 'a, 'd) ws_hook \<Rightarrow>
   ('m, 'z, 'a, 'd) ws_hook" where
  "handleMessage env m c =
     (let c0 = console_log (''[WS] Received: '' @ mtype m) c
      in if mtype m = ''world_state'' then dispatch (setWorldState (state m)) c0
         else if mtype m = ''transcript'' then
           (if msg_text m \<noteq> [] then hook_addTranscript env (''player'', msg_text m) c0 else c0)
         else if mtype m = ''action_result'' then on_action_result env m c0
         else if mtype m = ''reasoning'' then
           hook_addReasoningStep env (agent m, step m, details m) c0
         else if mtype m = ''npc_audio'' then on_npc_audio m c0
         else if mtype m = ''error'' then
           hook_addTranscript env (''system'', ''Error: '' @ message m)
             (console_error (''[WS] Server error: '' @ message m) c0)
         else if mtype m = ''pong'' then c0
         else c0)"

text \<open>
  \<open>ws.onmessage\<close>: \<open>parse\<close> is \<open>JSON.parse\<close> followed by the reading of the object as a
  \<open>ServerMessage\<close>, \<open>Inl\<close> when it throws. The \<open>catch\<close> has no rethrow.
\<close>

definition ws_onmessage ::
  "(string \<Rightarrow> js_error + ('m, 'z, 'a, 'd) server_message) \<Rightarrow> (nat \<Rightarrow> stamp) \<Rightarrow> string \<Rightarrow>
   ('m, 'z, 'a, 'd) ws_hook \<Rightarrow> js_error + ('m, 'z, 'a, 'd) ws_hook" where
  "ws_onmessage parse env payload c =
     (case parse payload of
        Inl e \<Rightarrow> Inr (console_error ''[WS] Failed to parse message:'' c)
      | Inr m \<Rightarrow> Inr (handleMessage env m c))"

subsection \<open>Sending\<close>

text \<open>
  \<open>wsRef.current.send(data)\<close>: a TypeError on a null ref; \<open>WebSocket.send\<close> throws
  InvalidStateError while CONNECTING, transmits when OPEN and discards the data when
  CLOSING or CLOSED.
\<close>

definition ws_send ::
  "client_message \<Rightarrow> ('m, 'z, 'a, 'd) ws_hook \<Rightarrow> js_error + ('m, 'z, 'a, 'd) ws_hook" where
  "ws_send msg c =
     (case wsRef c of
        None \<Rightarrow> Inl TypeError
      | Some ws \<Rightarrow>
          (case readyState ws of
             CONNECTING \<Rightarrow> Inl InvalidStateError
           | OPEN \<Rightarrow> Inr (c\<lparr>wsRef := Some (ws\<lparr>sent := sent ws @ [msg]\<rparr>)\<rparr>)
           | CLOSING \<Rightarrow> Inr c
           | CLOSED \<Rightarrow> Inr c))"

definition sendTranscript ::
  "string \<Rightarrow> bool \<Rightarrow> ('m, 'z, 'a, 'd) ws_hook \<Rightarrow> js_error + ('m, 'z, 'a, 'd) ws_hook" where
  "sendTranscript txt isFinal c =
     (if map_option readyState (wsRef c) \<noteq> Some OPEN
      then Inr (console_error ''[WS] Not connected'' c)
      else ws_send (TranscriptOut txt isFinal)
             (if isFinal then dispatch clearReasoningChain c else c))"

definition sendPing :: "('m, 'z, 'a, 'd) ws_hook \<Rightarrow> js_error + ('m, 'z, 'a, 'd) ws_hook" where
  "sendPing c =
     (if map_option readyState (wsRef c) = Some OPEN then ws_send PingOut c else Inr c)"

text \<open>
  \<open>disconnect\<close>: \<open>clearTimeout\<close> reaches the one timer whose identifier is in the ref
  (identifiers are positive, so a held one is truthy); the socket is closed and dropped.
\<close>

definition disconnect :: "('m, 'z, 'a, 'd) ws_hook \<Rightarrow> ('m, 'z, 'a, 'd) ws_hook" where
  "disconnect c =
     (let c1 = (case reconnectTimeoutRef c of
                  None \<Rightarrow> c
                | Some t \<Rightarrow> c\<lparr>timers := removeAll t (timers c)\<rparr>)
      in dispatch (setConnected False) (c1\<lparr>wsRef := None\<rparr>))"

section \<open>Audio capture (hooks/useAudioStream)\<close>

text \<open>
  The hook holds three refs and the state cell \<open>isRecording\<close>. Device objects are named
  by numbers; a media stream has its list of tracks. The calls made on device objects
  are recorded in order in \<open>device_calls\<close>.
\<close>

datatype device_call = NodeDisconnect nat | ContextClose nat | TrackStop nat

record media_stream =
  stream_no :: nat
  getTracks :: "nat list"

record audio_hook =
  audio_isRecording :: bool
  audioContextRef :: "nat option"
  processorRef :: "nat option"
  streamRef :: "media_stream option"
  device_calls :: "device_call list"

definition stopRecording :: "audio_hook \<Rightarrow> audio_hook" where
  "stopRecording h =
     (let h1 = (case processorRef h of
                  None \<Rightarrow> h
                | Some p \<Rightarrow> h\<lparr>device_calls := device_calls h @ [NodeDisconnect p],
                              processorRef := None\<rparr>);
          h2 = (case audioContextRef h1 of
                  None \<Rightarrow> h1
                | Some a \<Rightarrow> h1\<lparr>device_calls := device_calls h1 @ [ContextClose a],
                               audioContextRef := None\<rparr>);
          h3 = (case streamRef h2 of
                  None \<Rightarrow> h2
                | Some ms \<Rightarrow> h2\<lparr>device_calls := device_calls h2 @ map TrackStop (getTracks ms),
                                streamRef := None\<rparr>)
      in h3\<lparr>audio_isRecording := False\<rparr>)"

subsection \<open>Float32 to 16-bit PCM\<close>

text \<open>
  A JavaScript number is a finite value, an infinity or NaN. The samples come from a
  \<open>Float32Array\<close>: a finite sample has a 24-bit significand, so its product with
  \<open>0x8000\<close> or \<open>0x7FFF\<close> is a double without rounding and the real product is the
  computed one. (The sign of zero is not kept: both zeros store 0.)
\<close>

datatype js_number = Num real | PosInfinity | NegInfinity | NaN

text \<open>The operator \<open><\<close>: false when an operand is NaN.\<close>

fun js_less :: "js_number \<Rightarrow> js_number \<Rightarrow> bool" where
  "js_less NaN _ = False"
| "js_less _ NaN = False"
| "js_less _ NegInfinity = False"
| "js_less PosInfinity _ = False"
| "js_less NegInfinity _ = True"
| "js_less _ PosInfinity = True"
| "js_less (Num a) (Num b) = (a < b)"

definition Math_min :: "js_number \<Rightarrow> js_number \<Rightarrow> js_number" where
  "Math_min a b = (if a = NaN \<or> b = NaN then NaN else if js_less b a then b else a)"

definition Math_max :: "js_number \<Rightarrow> js_number \<Rightarrow> js_number" where
  "Math_max a b = (if a = NaN \<or> b = NaN then NaN else if js_less a b then b else a)"

text \<open>\<open>x * k\<close> for a finite constant \<open>k > 0\<close>.\<close>

fun js_times :: "js_number \<Rightarrow> real \<Rightarrow> js_number" where
  "js_times (Num a) k = Num (a * k)"
| "js_times PosInfinity k = PosInfinity"
| "js_times NegInfinity k = NegInfinity"
| "js_times NaN k = NaN"

text \<open>Rounding towards zero.\<close>

definition trunc :: "real \<Rightarrow> int" where
  "trunc r = (if r < 0 then \<lceil>r\<rceil> else \<lfloor>r\<rfloor>)"

text \<open>
  The store into an \<open>Int16Array\<close> (ToInt16): NaN and the infinities give 0, a finite
  value is truncated and taken modulo \<open>2 ^ 16\<close>.
\<close>

fun ToInt16 :: "js_number \<Rightarrow> 16 word" where
  "ToInt16 (Num r) = word_of_int (trunc r)"
| "ToInt16 _ = 0"

text \<open>The value computed for one sample, and the element stored (the body of the loop).\<close>

definition scaled_sample :: "js_number \<Rightarrow> js_number" where
  "scaled_sample x =
     (let s = Math_max (Num (- 1)) (Math_min (Num 1) x)
      in if js_less s (Num 0) then js_times s 32768 else js_times s 32767)"

definition pcm_sample :: "js_number \<Rightarrow> 16 word" where
  "pcm_sample x = ToInt16 (scaled_sample x)"

definition float32_to_pcm :: "js_number list \<Rightarrow> 16 word list" where
  "float32_to_pcm inputData = map pcm_sample inputData"

section \<open>The entries a run adds, and a sample message\<close>

text \<open>The entries that the \<open>addTranscript\<close> calls of a run build, oldest first.\<close>

fun transcript_calls :: "'d log_call list \<Rightarrow> transcript_entry list" where
  "transcript_calls [] = []"
| "transcript_calls (AddTranscript now entry # cs) =
     \<lparr>entry_id = fst now, entry_type = fst entry, entry_text = snd entry,
      entry_timestamp = snd now\<rparr> # transcript_calls cs"
| "transcript_calls (AddReasoningStep now stp # cs) = transcript_calls cs"

text \<open>The steps that the \<open>addReasoningStep\<close> calls of a run build, oldest first.\<close>

fun reasoning_calls :: "'d log_call list \<Rightarrow> 'd reasoning_step list" where
  "reasoning_calls [] = []"
| "reasoning_calls (AddTranscript now entry # cs) = reasoning_calls cs"
| "reasoning_calls (AddReasoningStep now stp # cs) =
     \<lparr>rs_id = fst now, rs_agent = fst stp, rs_step = fst (snd stp),
      rs_details = snd (snd stp), rs_timestamp = snd now\<rparr> # reasoning_calls cs"

text \<open>A message with every payload field empty, to build concrete messages from.\<close>

definition blank_message :: "(nat, unit, unit, unit) server_message" where
  "blank_message =
     \<lparr>mtype = ''pong'', state = \<lparr>current_mission = None\<rparr>, msg_text = [],
      parsed_action = (), feedback = [], world_diff = None, agent = [], step = [],
      details = (), audio_data = [], mood = [], message = []\<rparr>"

text \<open>A parser that accepts one payload and throws on every other.\<close>

definition pong_only_parse :: "string \<Rightarrow> js_error + (nat, unit, unit, unit) server_message" where
  "pong_only_parse payload =
     (if payload = ''{ type: pong }'' then Inr blank_message else Inl SyntaxError)"

section \<open>Properties of the bounded logs\<close>

lemma length_slice_last: "length (slice_last n xs) = min n (length xs)"
  by (simp add: slice_last_def)

lemma slice_last_append_one:
  "slice_last (Suc n) (xs @ [x]) = slice_last n xs @ [x]"
  by (simp add: slice_last_def Suc_diff_le)

lemma slice_last_idem:
  assumes "n \<le> m"
  shows "slice_last n (slice_last m xs) = slice_last n xs"
proof -
  have "length xs - (length xs - m + n) + (length xs - m) = length xs - n"
    using assms by arith
  then show ?thesis
    by (simp add: slice_last_def)
qed

lemma slice_last_step:
  "slice_last n (slice_last (Suc n) xs) @ [x] = slice_last (Suc n) (xs @ [x])"
  by (simp add: slice_last_idem slice_last_append_one)

lemma length_addTranscript:
  "length (transcripts (addTranscript now entry s)) = Suc (min 50 (length (transcripts s)))"
  by (simp add: addTranscript_def length_slice_last)

lemma length_addReasoningStep:
  "length (reasoningChain (addReasoningStep now stp s)) =
     Suc (min 20 (length (reasoningChain s)))"
  by (simp add: addReasoningStep_def length_slice_last)

lemma transcript_calls_append:
  "transcript_calls (cs @ ds) = transcript_calls cs @ transcript_calls ds"
  by (induction cs rule: transcript_calls.induct) simp_all

lemma reasoning_calls_append:
  "reasoning_calls (cs @ ds) = reasoning_calls cs @ reasoning_calls ds"
  by (induction cs rule: reasoning_calls.induct) simp_all

lemma run_log_snoc: "run_log s (cs @ [c]) = log_step (run_log s cs) c"
  by (simp add: run_log_def)

text \<open>
  Eviction is first in, first out: from the initial store, each log is the newest part
  of what the run added, in order; but the part kept is 51 transcript entries and 21
  reasoning steps long, since \<open>slice\<close> trims the old list before the new entry joins it.
\<close>

lemma transcripts_run_log:
  "transcripts (run_log initial_state cs) = slice_last 51 (transcript_calls cs)"
proof (induction cs rule: rev_induct)
  case Nil
  show ?case by (simp add: run_log_def initial_state_def slice_last_def)
next
  case (snoc c cs)
  show ?case
  proof (cases c)
    case (AddTranscript now entry)
    have "slice_last 50 (slice_last (Suc 50) (transcript_calls cs)) @ [x] =
          slice_last (Suc 50) (transcript_calls cs @ [x])" for x
      by (rule slice_last_step)
    then show ?thesis
      using snoc AddTranscript
      by (simp add: run_log_snoc addTranscript_def transcript_calls_append)
  next
    case (AddReasoningStep now stp)
    then show ?thesis
      using snoc
      by (simp add: run_log_snoc addReasoningStep_def transcript_calls_append)
  qed
qed

lemma reasoningChain_run_log:
  "reasoningChain (run_log initial_state cs) = slice_last 21 (reasoning_calls cs)"
proof (induction cs rule: rev_induct)
  case Nil
  show ?case by (simp add: run_log_def initial_state_def slice_last_def)
next
  case (snoc c cs)
  show ?case
  proof (cases c)
    case (AddTranscript now entry)
    then show ?thesis
      using snoc
      by (simp add: run_log_snoc addTranscript_def reasoning_calls_append)
  next
    case (AddReasoningStep now stp)
    have "slice_last 20 (slice_last (Suc 20) (reasoning_calls cs)) @ [x] =
          slice_last (Suc 20) (reasoning_calls cs @ [x])" for x
      by (rule slice_last_step)
    then show ?thesis
      using snoc AddReasoningStep
      by (simp add: run_log_snoc addReasoningStep_def reasoning_calls_append)
  qed
qed

lemma length_logs_run_log:
  "length (transcripts (run_log initial_state cs)) \<le> 51"
  "length (reasoningChain (run_log initial_state cs)) \<le> 21"
  by (simp_all add: transcripts_run_log reasoningChain_run_log length_slice_last)

lemma transcript_calls_replicate:
  "transcript_calls (replicate n (AddTranscript now entry)) =
     replicate n \<lparr>entry_id = fst now, entry_type = fst entry, entry_text = snd entry,
      entry_timestamp = snd now\<rparr>"
  by (induction n) simp_all

lemma reasoning_calls_replicate:
  "reasoning_calls (replicate n (AddReasoningStep now stp)) =
     replicate n \<lparr>rs_id = fst now, rs_agent = fst stp, rs_step = fst (snd stp),
      rs_details = snd (snd stp), rs_timestamp = snd now\<rparr>"
  by (induction n) simp_all

text \<open>
  C1. The claim: whatever the calls of \<open>addTranscript\<close> and \<open>addReasoningStep\<close>, the
  transcript log never holds more than 50 entries and the reasoning log never more
  than 20, the oldest entry being evicted first. The code at 51 calls of
  \<open>addTranscript\<close> and at 21 calls of \<open>addReasoningStep\<close> from the initial store: the
  logs hold 51 and 21 entries, one more than the cap the claim and the comments
  \<open>Keep last 50\<close> and \<open>Keep last 20\<close> give.
\<close>

theorem bounded_logs_hold_one_more:
  "length (transcripts (run_log initial_state
       (replicate 51 (AddTranscript (''k3j2x9a'', 0) (''player'', ''hello''))))) = 51 \<and>
   length (reasoningChain (run_log initial_state
       (replicate 21 (AddReasoningStep (''k3j2x9a'', 0) (''parser'', ''parse'', ()))))) = 21"
  by (simp add: transcripts_run_log reasoningChain_run_log transcript_calls_replicate
      reasoning_calls_replicate length_slice_last)

section \<open>Properties of the WebSocket hook\<close>

lemma store_console_log [simp]: "store (console_log line c) = store c"
  by (simp add: console_log_def)

lemma store_console_error [simp]: "store (console_error line c) = store c"
  by (simp add: console_error_def)

lemma wsRef_console_error [simp]: "wsRef (console_error line c) = wsRef c"
  by (simp add: console_error_def)

subsection \<open>Reconnection\<close>

text \<open>
  What \<open>connect\<close> returns when it has to create a session and the request throws.
\<close>

lemma connect_fallback_result:
  assumes "map_option readyState (wsRef c) \<noteq> Some OPEN"
      and "falsy (cl_sessionId cl)"
      and "session_request outcome = Inl e"
  shows "connect ws_url cl outcome rnd c =
           Inr (c\<lparr>store := (store c)\<lparr>sessionId := Some (''local-'' @ substring 2 9 rnd)\<rparr>,
                   console := console c @
                     [ConsoleError ''Failed to create session:'',
                      ConsoleLog (''[WS] Connecting to '' @ ws_url @ ''/'' @ ''local-'' @
                                  substring 2 9 rnd)],
                   wsRef := Some \<lparr>url = ws_url @ ''/'' @ ''local-'' @ substring 2 9 rnd,
                                   readyState = CONNECTING, sent = [],
                                   closure_isReconnecting = cl_isReconnecting cl\<rparr>\<rparr>)"
proof -
  have cs: "createSession outcome rnd =
              (Some (''local-'' @ substring 2 9 rnd), [ConsoleError ''Failed to create session:''])"
    using assms(3) by (simp add: createSession_def)
  have not_open: "(map_option readyState (wsRef c) = Some OPEN) = False"
    using assms(1) by simp
  show ?thesis
    unfolding connect_def not_open using assms(2) cs
    by (simp add: template_def Let_def console_log_def dispatch_def setSessionId_def)
qed

lemma timers_ws_onclose:
  "timers (ws_onclose ws c) =
     (if closure_isReconnecting ws then timers c else timers c @ [timer_seq c])"
  by (simp add: ws_onclose_def Let_def dispatch_def console_log_def)

lemma timer_seq_ws_onclose:
  "timer_seq (ws_onclose ws c) =
     (if closure_isReconnecting ws then timer_seq c else Suc (timer_seq c))"
  by (simp add: ws_onclose_def Let_def dispatch_def console_log_def)

lemma reconnectTimeoutRef_ws_onclose:
  "reconnectTimeoutRef (ws_onclose ws c) =
     (if closure_isReconnecting ws then reconnectTimeoutRef c else Some (timer_seq c))"
  by (simp add: ws_onclose_def Let_def dispatch_def console_log_def)

lemma isReconnecting_ws_onclose:
  "isReconnecting (ws_onclose ws c) = (\<not> closure_isReconnecting ws \<or> isReconnecting c)"
  by (simp add: ws_onclose_def Let_def dispatch_def console_log_def)

lemma timers_disconnect:
  "timers (disconnect c) =
     (case reconnectTimeoutRef c of None \<Rightarrow> timers c | Some t \<Rightarrow> removeAll t (timers c))"
  by (simp add: disconnect_def Let_def dispatch_def split: option.splits)

text \<open>
  C2. The claim: after a close event exactly one reconnect timer is scheduled, and a
  second close event before that timer fires creates no second timer. The code on a
  mount with the server out of reach: the first render's \<open>connect\<close> is called twice
  (by the hook's own mount effect and by the effect of \<open>App\<close>), each call opens a socket
  while no socket is open, and both sockets close. The first close schedules timer 1
  and sets the state cell; the handler of the second socket still reads the
  \<open>isReconnecting = false\<close> of its closure and schedules timer 2. The ref then holds
  timer 2 only, so \<open>disconnect\<close> leaves timer 1 pending.
\<close>

theorem stale_guard_stacks_reconnect_timers:
  "(let c0 = initial_hook :: (unit, unit, unit, unit) ws_hook;
        cl = render c0;
        r1 = connect ''ws://localhost:8000/ws'' cl FetchRejected ''0.4fzyo82mvyr'' c0;
        c1 = projr r1;
        w1 = the (wsRef c1);
        r2 = connect ''ws://localhost:8000/ws'' cl FetchRejected ''0.k3j2x9a7b1c'' c1;
        c2 = projr r2;
        w2 = the (wsRef c2);
        c3 = ws_onclose w1 c2;
        c4 = ws_onclose w2 c3
    in isl r1 = False \<and> isl r2 = False \<and>
       url w1 = ''ws://localhost:8000/ws/local-4fzyo82'' \<and>
       url w2 = ''ws://localhost:8000/ws/local-k3j2x9a'' \<and>
       timers c2 = [] \<and>
       timers c3 = [1] \<and> isReconnecting c3 = True \<and>
       timers c4 = [1, 2] \<and> reconnectTimeoutRef c4 = Some 2 \<and>
       timers (disconnect c4) = [1])"
proof -
  define c0 where "c0 = (initial_hook :: (unit, unit, unit, unit) ws_hook)"
  define cl where "cl = render c0"
  define r1 where
    "r1 = connect ''ws://localhost:8000/ws'' cl FetchRejected ''0.4fzyo82mvyr'' c0"
  define c1 where "c1 = projr r1"
  define w1 where "w1 = the (wsRef c1)"
  define r2 where
    "r2 = connect ''ws://localhost:8000/ws'' cl FetchRejected ''0.k3j2x9a7b1c'' c1"
  define c2 where "c2 = projr r2"
  define w2 where "w2 = the (wsRef c2)"
  define c3 where "c3 = ws_onclose w1 c2"
  define c4 where "c4 = ws_onclose w2 c3"
  have cl: "falsy (cl_sessionId cl)" "cl_isReconnecting cl = False"
    by (simp_all add: cl_def c0_def render_def initial_hook_def initial_state_def falsy_def)
  have req: "session_request FetchRejected = Inl TypeError"
    by (simp add: session_request_def)
  have "map_option readyState (wsRef c0) \<noteq> Some OPEN"
    by (simp add: c0_def initial_hook_def)
  from connect_fallback_result
    [where ws_url = "''ws://localhost:8000/ws''" and rnd = "''0.4fzyo82mvyr''", OF this cl(1) req]
  have r1: "isl r1 = False" and w1: "wsRef c1 = Some w1"
    and w1_url: "url w1 = ''ws://localhost:8000/ws/local-4fzyo82''"
    and w1_state: "readyState w1 = CONNECTING"
    and w1_flag: "closure_isReconnecting w1 = False"
    and c1_timers: "timers c1 = []" "timer_seq c1 = 1"
    by (simp_all add: r1_def c1_def w1_def substring_def cl(2) c0_def initial_hook_def)
  have "map_option readyState (wsRef c1) \<noteq> Some OPEN"
    by (simp add: w1 w1_state)
  from connect_fallback_result
    [where ws_url = "''ws://localhost:8000/ws''" and rnd = "''0.k3j2x9a7b1c''", OF this cl(1) req]
  have r2: "isl r2 = False"
    and w2_url: "url w2 = ''ws://localhost:8000/ws/local-k3j2x9a''"
    and w2_flag: "closure_isReconnecting w2 = False"
    and c2_timers: "timers c2 = []" "timer_seq c2 = 1"
    by (simp_all add: r2_def c2_def w2_def substring_def cl(2) c1_timers)
  have c3: "timers c3 = [1]" "timer_seq c3 = 2" "isReconnecting c3 = True"
    by (simp_all add: c3_def timers_ws_onclose timer_seq_ws_onclose isReconnecting_ws_onclose
        w1_flag c2_timers)
  have c4: "timers c4 = [1, 2]" "reconnectTimeoutRef c4 = Some 2"
    by (simp_all add: c4_def timers_ws_onclose reconnectTimeoutRef_ws_onclose w2_flag c3)
  have leak: "timers (disconnect c4) = [1]"
    by (simp add: timers_disconnect c4)
  show ?thesis
    unfolding Let_def
    using r1 r2 w1_url w2_url c2_timers(1) c3(1,3) c4 leak
    unfolding c4_def c3_def w2_def c2_def r2_def w1_def c1_def r1_def cl_def c0_def
    by (intro conjI)
qed

subsection \<open>Incoming messages\<close>

text \<open>
  C3. For every world state \<open>s\<close>, a \<open>world_state\<close> message carrying \<open>s\<close> delivered twice
  leaves the store as one delivery does: the handler replaces \<open>worldState\<close> by \<open>s\<close> and
  \<open>mission\<close> by the current mission of \<open>s\<close>, whatever they were.
\<close>

theorem world_state_message_idempotent:
  assumes "mtype m = ''world_state''"
  shows "store (handleMessage env m (handleMessage env m c)) = store (handleMessage env m c) \<and>
         worldState (store (handleMessage env m c)) = Some (state m) \<and>
         mission (store (handleMessage env m c)) = current_mission (state m)"
  using assms by (simp add: handleMessage_def dispatch_def setWorldState_def)

theorem world_state_message_idempotent_witness:
  "mtype (blank_message\<lparr>mtype := ''world_state'', state := \<lparr>current_mission = Some 7\<rparr>\<rparr>) =
     ''world_state'' \<and>
   store (handleMessage (\<lambda>k. (''id'', 0))
            (blank_message\<lparr>mtype := ''world_state'', state := \<lparr>current_mission = Some 7\<rparr>\<rparr>)
            (handleMessage (\<lambda>k. (''id'', 0))
               (blank_message\<lparr>mtype := ''world_state'', state := \<lparr>current_mission = Some 7\<rparr>\<rparr>)
               initial_hook)) =
   store (handleMessage (\<lambda>k. (''id'', 0))
            (blank_message\<lparr>mtype := ''world_state'', state := \<lparr>current_mission = Some 7\<rparr>\<rparr>)
            initial_hook) \<and>
   mission (store (handleMessage (\<lambda>k. (''id'', 0))
            (blank_message\<lparr>mtype := ''world_state'', state := \<lparr>current_mission = Some 7\<rparr>\<rparr>)
            initial_hook)) = Some 7"
proof -
  have h: "mtype (blank_message\<lparr>mtype := ''world_state'',
                                state := \<lparr>current_mission = Some 7\<rparr>\<rparr>) = ''world_state''"
    by simp
  show ?thesis
    using h world_state_message_idempotent [OF h, of "\<lambda>k. (''id'', 0)" initial_hook]
    by simp
qed

text \<open>
  C6. For every message whose type tag is none of \<open>world_state\<close>, \<open>transcript\<close>,
  \<open>action_result\<close>, \<open>reasoning\<close>, \<open>npc_audio\<close>, \<open>error\<close> and \<open>pong\<close>, the handler takes
  no branch: it returns (no error) having written its one console line, and the
  store is unchanged.
\<close>

theorem unknown_type_ignored:
  assumes "mtype m \<notin> {''world_state'', ''transcript'', ''action_result'', ''reasoning'',
                       ''npc_audio'', ''error'', ''pong''}"
  shows "handleMessage env m c = console_log (''[WS] Received: '' @ mtype m) c \<and>
         store (handleMessage env m c) = store c"
  using assms by (simp add: handleMessage_def)

theorem unknown_type_ignored_witness:
  "mtype (blank_message\<lparr>mtype := ''mission_update''\<rparr>) \<notin>
     {''world_state'', ''transcript'', ''action_result'', ''reasoning'', ''npc_audio'',
      ''error'', ''pong''} \<and>
   store (handleMessage (\<lambda>k. (''id'', 0)) (blank_message\<lparr>mtype := ''mission_update''\<rparr>)
            initial_hook) = initial_state"
proof -
  have h: "mtype (blank_message\<lparr>mtype := ''mission_update''\<rparr>) \<notin>
             {''world_state'', ''transcript'', ''action_result'', ''reasoning'', ''npc_audio'',
              ''error'', ''pong''}"
    by simp
  show ?thesis
    using h unknown_type_ignored [OF h, of "\<lambda>k. (''id'', 0)" initial_hook]
    by (simp add: initial_hook_def)
qed

text \<open>
  C10. For every \<open>transcript\<close> message whose text is empty, the handler leaves the
  transcript log (and the rest of the store) unchanged.
\<close>

theorem empty_transcript_text_ignored:
  assumes "mtype m = ''transcript''" and "msg_text m = []"
  shows "transcripts (store (handleMessage env m c)) = transcripts (store c) \<and>
         store (handleMessage env m c) = store c"
  using assms by (simp add: handleMessage_def)

theorem empty_transcript_text_ignored_witness:
  "mtype (blank_message\<lparr>mtype := ''transcript''\<rparr>) = ''transcript'' \<and>
   msg_text (blank_message\<lparr>mtype := ''transcript''\<rparr>) = [] \<and>
   transcripts (store (handleMessage (\<lambda>k. (''id'', 0)) (blank_message\<lparr>mtype := ''transcript''\<rparr>)
                         initial_hook)) = []"
proof -
  have h1: "mtype (blank_message\<lparr>mtype := ''transcript''\<rparr>) = ''transcript''"
    by simp
  have h2: "msg_text (blank_message\<lparr>mtype := ''transcript''\<rparr>) = []"
    by (simp add: blank_message_def)
  show ?thesis
    using h1 h2 empty_transcript_text_ignored [OF h1 h2, of "\<lambda>k. (''id'', 0)" initial_hook]
    by (simp add: initial_hook_def initial_state_def)
qed

text \<open>
  C7. For every payload on which \<open>JSON.parse\<close> throws, \<open>ws.onmessage\<close> returns without
  an error, having written one console error line; the store and the socket in
  \<open>wsRef\<close> (its ready state with it) are unchanged.
\<close>

theorem unparseable_payload_dropped:
  assumes "parse payload = Inl e"
  shows "ws_onmessage parse env payload c =
           Inr (console_error ''[WS] Failed to parse message:'' c) \<and>
         store (console_error ''[WS] Failed to parse message:'' c) = store c \<and>
         wsRef (console_error ''[WS] Failed to parse message:'' c) = wsRef c"
  using assms by (simp add: ws_onmessage_def)

theorem unparseable_payload_dropped_witness:
  "pong_only_parse ''{type:'' = Inl SyntaxError \<and>
   ws_onmessage pong_only_parse (\<lambda>k. (''id'', 0)) ''{type:'' initial_hook =
     Inr (initial_hook\<lparr>console := [ConsoleError ''[WS] Failed to parse message:'']\<rparr>)"
proof -
  have h: "pong_only_parse ''{type:'' = Inl SyntaxError"
    by (simp add: pong_only_parse_def)
  show ?thesis
    using h unparseable_payload_dropped
      [where parse = pong_only_parse and payload = "''{type:''" and e = SyntaxError
         and env = "\<lambda>k. (''id'', 0)" and c = initial_hook, OF h]
    by (simp add: console_error_def initial_hook_def)
qed

subsection \<open>connect and sendTranscript\<close>

text \<open>
  C4. When \<open>connect\<close> runs with no session identifier held and the session request it
  makes throws, \<open>connect\<close> returns without an error: the store holds the identifier
  \<open>local-\<close> followed by seven characters of the random string, and \<open>wsRef\<close> holds a new
  connecting socket whose address ends in that identifier. (\<open>connect\<close> makes the
  request only when the socket in \<open>wsRef\<close> is not open: with an open socket it returns
  at once.)
\<close>

theorem connect_falls_back_to_local_session:
  assumes "map_option readyState (wsRef c) \<noteq> Some OPEN"
      and "falsy (cl_sessionId cl)"
      and "session_request outcome = Inl e"
  shows "\<exists>c'. connect ws_url cl outcome rnd c = Inr c' \<and>
           sessionId (store c') = Some (''local-'' @ substring 2 9 rnd) \<and>
           map_option url (wsRef c') = Some (ws_url @ ''/'' @ ''local-'' @ substring 2 9 rnd) \<and>
           map_option readyState (wsRef c') = Some CONNECTING"
  using connect_fallback_result [OF assms] by simp

theorem connect_falls_back_to_local_session_witness:
  "map_option readyState (wsRef (initial_hook :: (nat, unit, unit, unit) ws_hook)) \<noteq> Some OPEN \<and>
   falsy (cl_sessionId (render (initial_hook :: (nat, unit, unit, unit) ws_hook))) \<and>
   session_request FetchRejected = Inl TypeError \<and>
   (\<exists>c'. connect ''ws://localhost:8000/ws''
            (render (initial_hook :: (nat, unit, unit, unit) ws_hook)) FetchRejected
            ''0.4fzyo82mvyr'' (initial_hook :: (nat, unit, unit, unit) ws_hook) = Inr c' \<and>
          sessionId (store c') = Some ''local-4fzyo82'' \<and>
          map_option url (wsRef c') = Some ''ws://localhost:8000/ws/local-4fzyo82'' \<and>
          map_option readyState (wsRef c') = Some CONNECTING)"
proof -
  have h1: "map_option readyState (wsRef (initial_hook :: (nat, unit, unit, unit) ws_hook)) \<noteq>
              Some OPEN"
    by (simp add: initial_hook_def)
  have h2: "falsy (cl_sessionId (render (initial_hook :: (nat, unit, unit, unit) ws_hook)))"
    by (simp add: falsy_def render_def initial_hook_def initial_state_def)
  have h3: "session_request FetchRejected = Inl TypeError"
    by (simp add: session_request_def)
  show ?thesis
    using h1 h2 h3
      connect_falls_back_to_local_session
        [where ws_url = "''ws://localhost:8000/ws''" and rnd = "''0.4fzyo82mvyr''", OF h1 h2 h3]
    by (simp add: substring_def)
qed

text \<open>
  C5. For every text, \<open>sendTranscript\<close> called while the socket is not open (or there is
  none) returns without an error, having written one console error line: nothing is
  sent (the socket in \<open>wsRef\<close> is as before) and the store is unchanged.
\<close>

theorem sendTranscript_not_open:
  assumes "map_option readyState (wsRef c) \<noteq> Some OPEN"
  shows "sendTranscript txt isFinal c = Inr (console_error ''[WS] Not connected'' c) \<and>
         store (console_error ''[WS] Not connected'' c) = store c \<and>
         wsRef (console_error ''[WS] Not connected'' c) = wsRef c"
  using assms by (simp add: sendTranscript_def)

theorem sendTranscript_not_open_witness:
  "map_option readyState
     (wsRef ((initial_hook :: (nat, unit, unit, unit) ws_hook)
        \<lparr>wsRef := Some \<lparr>url = ''ws://localhost:8000/ws/s1'', readyState = CONNECTING,
                        sent = [], closure_isReconnecting = False\<rparr>\<rparr>)) \<noteq> Some OPEN \<and>
   sendTranscript ''hello'' True
     ((initial_hook :: (nat, unit, unit, unit) ws_hook)
        \<lparr>wsRef := Some \<lparr>url = ''ws://localhost:8000/ws/s1'', readyState = CONNECTING,
                        sent = [], closure_isReconnecting = False\<rparr>\<rparr>) =
   Inr (initial_hook
        \<lparr>wsRef := Some \<lparr>url = ''ws://localhost:8000/ws/s1'', readyState = CONNECTING,
                        sent = [], closure_isReconnecting = False\<rparr>,
         console := [ConsoleError ''[WS] Not connected'']\<rparr>)"
proof -
  have h: "map_option readyState
     (wsRef ((initial_hook :: (nat, unit, unit, unit) ws_hook)
        \<lparr>wsRef := Some \<lparr>url = ''ws://localhost:8000/ws/s1'', readyState = CONNECTING,
                        sent = [], closure_isReconnecting = False\<rparr>\<rparr>)) \<noteq> Some OPEN"
    by simp
  show ?thesis
    using h sendTranscript_not_open [OF h, of "''hello''" True]
    by (simp add: console_error_def initial_hook_def)
qed

section \<open>Properties of audio capture\<close>

text \<open>
  C8. From every state of the hook, after \<open>stopRecording\<close> the three refs (processing
  node, audio context, media stream) are null and \<open>isRecording\<close> is false; each object
  a ref held has been released: the node disconnected, the context closed, every track
  of the stream stopped, in this order and nothing else. \<open>stopRecording\<close> has one exit
  path; a ref that is already null is skipped.
\<close>

theorem stopRecording_releases_all:
  "processorRef (stopRecording h) = None \<and>
   audioContextRef (stopRecording h) = None \<and>
   streamRef (stopRecording h) = None \<and>
   audio_isRecording (stopRecording h) = False \<and>
   device_calls (stopRecording h) =
     device_calls h
     @ (case processorRef h of None \<Rightarrow> [] | Some p \<Rightarrow> [NodeDisconnect p])
     @ (case audioContextRef h of None \<Rightarrow> [] | Some a \<Rightarrow> [ContextClose a])
     @ (case streamRef h of None \<Rightarrow> [] | Some ms \<Rightarrow> map TrackStop (getTracks ms))"
  by (simp add: stopRecording_def Let_def split: option.splits)

subsection \<open>The PCM conversion\<close>

lemma scaled_sample_Num:
  "scaled_sample (Num r) =
     Num (if max (- 1) (min 1 r) < 0 then max (- 1) (min 1 r) * 32768
          else max (- 1) (min 1 r) * 32767)"
  by (simp add: scaled_sample_def Math_min_def Math_max_def Let_def min_def max_def)

lemma trunc_scaled_bounds:
  fixes s :: real
  assumes "- 1 \<le> s" and "s \<le> 1"
  shows "- 32768 \<le> trunc (if s < 0 then s * 32768 else s * 32767)"
    and "trunc (if s < 0 then s * 32768 else s * 32767) \<le> 32767"
proof -
  show "- 32768 \<le> trunc (if s < 0 then s * 32768 else s * 32767)"
  proof (cases "s < 0")
    case True
    have "(- 32768 :: real) \<le> s * 32768" using assms(1) by simp
    then have "- 32768 \<le> \<lceil>s * 32768\<rceil>" by (simp add: le_ceiling_iff)
    then show ?thesis using True by (simp add: trunc_def mult_less_0_iff)
  next
    case False
    then have "0 \<le> s * 32767" by simp
    then have "0 \<le> \<lfloor>s * 32767\<rfloor>" by simp
    then show ?thesis using False by (simp add: trunc_def)
  qed
  show "trunc (if s < 0 then s * 32768 else s * 32767) \<le> 32767"
  proof (cases "s < 0")
    case True
    then have "s * 32768 \<le> 0" by (simp add: mult_le_0_iff)
    then have "\<lceil>s * 32768\<rceil> \<le> 0" by (simp add: ceiling_le_iff)
    then show ?thesis using True by (simp add: trunc_def mult_less_0_iff)
  next
    case False
    have "s * 32767 \<le> 32767" using assms(2) by simp
    then have "\<lfloor>s * 32767\<rfloor> \<le> 32767" by (simp add: floor_le_iff)
    then show ?thesis using False by (simp add: trunc_def)
  qed
qed

lemma sint_int16_no_wrap:
  assumes "- 32768 \<le> n" and "n \<le> 32767"
  shows "sint (word_of_int n :: 16 word) = n"
proof -
  have "signed_take_bit 15 n = n"
    using assms by (simp add: signed_take_bit_int_eq_self)
  then show ?thesis
    by (simp add: sint_sbintrunc')
qed

lemma sint_pcm_sample_Num:
  "sint (pcm_sample (Num r)) =
     trunc (if max (- 1) (min 1 r) < 0 then max (- 1) (min 1 r) * 32768
            else max (- 1) (min 1 r) * 32767)"
proof -
  have lo: "- 1 \<le> max (- 1) (min 1 r)" and hi: "max (- 1) (min 1 r) \<le> 1"
    by simp_all
  show ?thesis
    unfolding pcm_sample_def scaled_sample_Num ToInt16.simps
    by (rule sint_int16_no_wrap) (rule trunc_scaled_bounds [OF lo hi])+
qed

text \<open>
  C9. For every input sample the conversion clamps to \<open>[-1, 1]\<close> and scales, a
  negative value by \<open>0x8000\<close> and the others by \<open>0x7FFF\<close>; the 16-bit element stored
  reads back as the truncated scaled value itself (the store modulo \<open>2 ^ 16\<close> changes
  nothing: no wrap-around) and lies in \<open>[-32768, 32767]\<close>; \<open>-1\<close> gives \<open>-32768\<close> and \<open>1\<close>
  gives \<open>32767\<close>. The infinities clamp like \<open>1\<close> and \<open>-1\<close>; NaN is stored as 0.
\<close>

theorem pcm_sample_no_wraparound:
  "sint (pcm_sample (Num r)) =
     trunc (if max (- 1) (min 1 r) < 0 then max (- 1) (min 1 r) * 32768
            else max (- 1) (min 1 r) * 32767) \<and>
   - 32768 \<le> sint (pcm_sample x) \<and> sint (pcm_sample x) \<le> 32767 \<and>
   sint (pcm_sample (Num (- 1))) = - 32768 \<and>
   sint (pcm_sample (Num 1)) = 32767 \<and>
   sint (pcm_sample PosInfinity) = 32767 \<and>
   sint (pcm_sample NegInfinity) = - 32768 \<and>
   sint (pcm_sample NaN) = 0"
proof -
  have range: "- 32768 \<le> sint (pcm_sample x) \<and> sint (pcm_sample x) \<le> 32767"
    using sint_ge [of "pcm_sample x"] sint_lt [of "pcm_sample x"] by simp
  have neg: "sint (pcm_sample (Num (- 1))) = - 32768"
    by (simp add: sint_pcm_sample_Num trunc_def)
  have pos: "sint (pcm_sample (Num 1)) = 32767"
    by (simp add: sint_pcm_sample_Num trunc_def)
  have pinf: "sint (pcm_sample PosInfinity) = 32767"
    using pos by (simp add: pcm_sample_def scaled_sample_def Math_min_def Math_max_def)
  have ninf: "sint (pcm_sample NegInfinity) = - 32768"
    using neg by (simp add: pcm_sample_def scaled_sample_def Math_min_def Math_max_def)
  have nan: "sint (pcm_sample NaN) = 0"
    by (simp add: pcm_sample_def scaled_sample_def Math_min_def Math_max_def)
  show ?thesis
    using sint_pcm_sample_Num [of r] range neg pos pinf ninf nan by simp
qed

end
